theory Spec2Isabelle
  imports Main "HOL-Library.Sublist"
begin

section \<open>Test-plan stripping (src/src/utils.ts)\<close>

text \<open>
  JavaScript strings are modelled as \<open>string\<close>: one \<open>char\<close> per code unit.
  \<open>String.prototype.indexOf(needle, position)\<close> returns the least index at or
  after \<open>position\<close> where \<open>needle\<close> occurs, and \<open>-1\<close> when there is none; here
  \<open>None\<close> stands for \<open>-1\<close>.
\<close>

fun search :: "string \<Rightarrow> string \<Rightarrow> nat option" where
  "search needle [] = (if needle = [] then Some 0 else None)"
| "search needle (c # cs) =
     (if prefix needle (c # cs) then Some 0
      else map_option Suc (search needle cs))"

definition indexOf :: "string \<Rightarrow> string \<Rightarrow> nat \<Rightarrow> nat option" where
  "indexOf body needle position =
     (let start = min position (length body)
      in map_option (\<lambda>i. start + i) (search needle (drop start body)))"

definition slice_to :: "string \<Rightarrow> nat \<Rightarrow> string" where
  "slice_to body e = take e body"

definition slice_from :: "string \<Rightarrow> nat \<Rightarrow> string" where
  "slice_from body b = drop b body"

definition startDelimiter :: string where
  "startDelimiter = ''<!--''"

definition endDelimiter :: string where
  "endDelimiter = ''-->''"

definition stripTestPlanFromPRBody :: "string \<Rightarrow> string" where
  "stripTestPlanFromPRBody body =
     (case indexOf body startDelimiter 0 of
        None \<Rightarrow> body
      | Some startIndex \<Rightarrow>
          (case indexOf body endDelimiter (startIndex + length startDelimiter) of
             None \<Rightarrow> body
           | Some endIndex \<Rightarrow>
               slice_to body startIndex @ slice_from body (endIndex + length endDelimiter)))"


section \<open>Errors, calls to the outside world, and the event trace\<close>

text \<open>
  Every \<open>throw\<close> of the source is a value of \<open>error\<close>: the guard on unmerged pull
  requests, the missing \<open>base\<close> group (carrying the pattern's source text and the
  label), and a rejection of \<open>exec\<close> or \<open>github.request\<close> (carrying the message of
  the rejected promise).
\<close>

datatype error =
    SecurityError
  | MissingBaseGroupError string string
  | ExternalError string

definition dquote :: char where
  "dquote = CHR 0x22"

fun message :: "error \<Rightarrow> string" where
  "message SecurityError =
     ''For security reasons, this action should only run on merged PRs.''"
| "message (MissingBaseGroupError pattern lbl) =
     ''RegExp '' @ [dquote] @ pattern @ [dquote] @ '' matched '' @ [dquote] @ lbl @ [dquote]
       @ '' but missed a '' @ [dquote] @ ''base'' @ [dquote] @ '' named capturing group.''"
| "message (ExternalError msg) = msg"

text \<open>
  The calls the action issues: \<open>exec("git", args, {cwd})\<close> and the six REST routes.
  \<^item> \<open>Exec args cwd\<close>
  \<^item> \<open>GetRepo owner repo\<close>: GET /repos/{owner}/{repo}
  \<^item> \<open>PostPulls owner repo base head title body\<close>: POST /repos/{owner}/{repo}/pulls
  \<^item> \<open>PostRequestedReviewers owner repo pull_number reviewers team_reviewers\<close>
  \<^item> \<open>PutLabels owner repo issue_number labels\<close>: PUT .../issues/{issue_number}/labels
  \<^item> \<open>PostComments owner repo issue_number body\<close>: POST .../issues/{issue_number}/comments
  \<^item> \<open>PostLabels owner repo issue_number labels\<close>: POST .../issues/{issue_number}/labels
\<close>

datatype call =
    Exec "string list" "string option"
  | GetRepo string string
  | PostPulls string string string string string string
  | PostRequestedReviewers string string nat "string list" "string list option"
  | PutLabels string string nat "string list"
  | PostComments string string nat string
  | PostLabels string string nat "string list"

text \<open>The fields the action reads from the \<open>data\<close> of a response.\<close>

record response =
  number :: nat
  allow_merge_commit :: bool
  allow_rebase_merge :: bool

type_synonym outcome = "string + response"

text \<open>
  The trace records, in order, every call together with its outcome (\<open>Inl msg\<close>: the
  promise was rejected with message \<open>msg\<close>) and every line handed to the runner's
  log (\<open>info\<close>, \<open>warning\<close>, \<open>error\<close>, and the group markers of \<open>group\<close>).
\<close>

datatype event =
    Called call outcome
  | Info string
  | Warning string
  | LogError error
  | GroupStart string
  | GroupEnd

text \<open>
  The outside world (the git binary, the hosting API) answers a call as a function of
  everything that happened before it; any finite sequence of successes and failures
  is the behaviour of some environment.
\<close>

type_synonym environment = "event list \<Rightarrow> call \<Rightarrow> outcome"

type_synonym 'a step = "(error + 'a) \<times> event list"

definition perform :: "environment \<Rightarrow> call \<Rightarrow> event list \<Rightarrow> response step" where
  "perform env c tr =
     (case env tr c of
        Inl msg \<Rightarrow> (Inl (ExternalError msg), tr @ [Called c (Inl msg)])
      | Inr d \<Rightarrow> (Inr d, tr @ [Called c (Inr d)]))"

text \<open>\<open>await\<close> followed by the rest of the function: a rejection skips the rest.\<close>

definition andThen :: "'a step \<Rightarrow> ('a \<Rightarrow> event list \<Rightarrow> 'b step) \<Rightarrow> 'b step" where
  "andThen r k = (case r of (Inl e, tr) \<Rightarrow> (Inl e, tr) | (Inr x, tr) \<Rightarrow> k x tr)"

definition exec :: "environment \<Rightarrow> string list \<Rightarrow> string option \<Rightarrow> event list \<Rightarrow> response step" where
  "exec env args cwd tr = perform env (Exec args cwd) tr"

definition request :: "environment \<Rightarrow> call \<Rightarrow> event list \<Rightarrow> response step" where
  "request env c tr = perform env c tr"

text \<open>Decimal rendering of a number inside a template literal.\<close>

definition digit :: "nat \<Rightarrow> char" where
  "digit d = ''0123456789'' ! d"

fun show_nat :: "nat \<Rightarrow> string" where
  "show_nat n = (if n < 10 then [digit n] else show_nat (n div 10) @ [digit (n mod 10)])"

declare show_nat.simps [simp del]

section \<open>Label routing (src/src/backport.ts, lines 13-53)\<close>

text \<open>
  A regular expression is its source text and its \<open>exec\<close> function. The action builds
  it with \<open>new RegExp(pattern)\<close>, without flags, so \<open>exec\<close> keeps no state between
  calls and \<open>test\<close> is "\<open>exec\<close> is not null". Of a match only \<open>groups\<close> is read: it is
  \<open>undefined\<close> (\<open>None\<close>) when the pattern has no named group at all, and otherwise
  maps each named group to its capture; a group that did not take part in the match
  reads \<open>undefined\<close>, as a missing key does.
\<close>

record regmatch =
  groups :: "(string \<rightharpoonup> string) option"

record regexp =
  source :: string
  regexp_exec :: "string \<Rightarrow> regmatch option"

definition test :: "regexp \<Rightarrow> string \<Rightarrow> bool" where
  "test rx lbl \<longleftrightarrow> regexp_exec rx lbl \<noteq> None"

definition getBaseBranchFromLabel :: "string \<Rightarrow> regexp \<Rightarrow> error + string option" where
  "getBaseBranchFromLabel lbl rx =
     (case regexp_exec rx lbl of
        None \<Rightarrow> Inr None
      | Some result \<Rightarrow>
          (case groups result of
             None \<Rightarrow> Inr None
           | Some gs \<Rightarrow>
               (case gs ''base'' of
                  None \<Rightarrow> Inl (MissingBaseGroupError (source rx) lbl)
                | Some base \<Rightarrow>
                    if base = [] then Inl (MissingBaseGroupError (source rx) lbl)
                    else Inr (Some base))))"

text \<open>\<open>Array.prototype.map\<close> with a callback that may throw: the first throw ends it.\<close>

fun mapE :: "('a \<Rightarrow> error + 'b) \<Rightarrow> 'a list \<Rightarrow> error + 'b list" where
  "mapE f [] = Inr []"
| "mapE f (x # xs) =
     (case f x of
        Inl e \<Rightarrow> Inl e
      | Inr y \<Rightarrow> (case mapE f xs of Inl e \<Rightarrow> Inl e | Inr ys \<Rightarrow> Inr (y # ys)))"

text \<open>lodash's \<open>compact\<close> drops the falsy entries: \<open>undefined\<close> and the empty string.\<close>

fun compact :: "string option list \<Rightarrow> string list" where
  "compact [] = []"
| "compact (None # xs) = compact xs"
| "compact (Some x # xs) = (if x = [] then compact xs else x # compact xs)"

record pull_request =
  pr_body :: "string option"
  pr_labels :: "string list"
  merge_commit_sha :: "string option"
  merged :: "bool option"
  merged_by_login :: "string option"
  pr_number :: nat
  pr_title :: string
  user_login :: string

record repository =
  repo_name :: string
  owner_login :: string
  clone_url :: string

text \<open>
  \<open>event_label\<close> is the name of \<open>payload.label\<close>: present on a "labeled" event, absent
  (\<open>None\<close>) on a "closed" one.
\<close>

record payload =
  event_label :: "string option"
  pull_request :: pull_request
  repository :: repository

definition getBaseBranches :: "regexp \<Rightarrow> payload \<Rightarrow> error + string list" where
  "getBaseBranches labelRegExp p =
     (case event_label p of
        Some name \<Rightarrow>
          (case getBaseBranchFromLabel name labelRegExp of
             Inl e \<Rightarrow> Inl e
           | Inr None \<Rightarrow> Inr []
           | Inr (Some base) \<Rightarrow> Inr (if base \<noteq> [] then [base] else []))
      | None \<Rightarrow>
          (case mapE (\<lambda>lbl. getBaseBranchFromLabel lbl labelRegExp) (pr_labels (pull_request p)) of
             Inl e \<Rightarrow> Inl e
           | Inr bases \<Rightarrow> Inr (compact bases)))"

section \<open>One backport (src/src/backport.ts, lines 55-238)\<close>

definition squashWarning :: string where
  "squashWarning =
     ''Your repository allows merge commits and rebase merging.'' @ [CHR 0x0A] @
     '' However, Backport only supports rebased and merged pull requests with a single commit and squashed and merged pull requests.'' @ [CHR 0x0A] @
     '' Consider only allowing squash merging.'' @ [CHR 0x0A] @
     '' See https://help.github.com/en/github/administering-a-repository/about-merge-methods-on-github for more information.''"

definition warnIfSquashIsNotTheOnlyAllowedMergeMethod ::
  "environment \<Rightarrow> string \<Rightarrow> string \<Rightarrow> event list \<Rightarrow> unit step" where
  "warnIfSquashIsNotTheOnlyAllowedMergeMethod env owner repo tr =
     andThen (request env (GetRepo owner repo) tr) (\<lambda>d tr.
       if allow_merge_commit d \<or> allow_rebase_merge d
       then (Inr (), tr @ [Warning squashWarning])
       else (Inr (), tr))"

definition git :: "environment \<Rightarrow> string \<Rightarrow> string list \<Rightarrow> event list \<Rightarrow> response step" where
  "git env repo args tr = exec env args (Some repo) tr"

definition cherryPick :: "environment \<Rightarrow> string \<Rightarrow> string \<Rightarrow> event list \<Rightarrow> response step" where
  "cherryPick env repo commitSha tr =
     (case git env repo [''cherry-pick'', ''-x'', commitSha] tr of
        (Inl e, tr1) \<Rightarrow>
          andThen (git env repo [''cherry-pick'', ''--abort''] tr1) (\<lambda>_ tr2. (Inl e, tr2))
      | (Inr d, tr1) \<Rightarrow> (Inr d, tr1))"

definition backportOnce ::
  "environment \<Rightarrow> string \<Rightarrow> string \<Rightarrow> string \<Rightarrow> string \<Rightarrow> string \<Rightarrow> string list \<Rightarrow> string \<Rightarrow>
   string \<Rightarrow> string \<Rightarrow> string \<Rightarrow> string \<Rightarrow> event list \<Rightarrow> nat step" where
  "backportOnce env author base body commitSha head labels merged_by owner repo teamReviews title tr =
     andThen (git env repo [''switch'', base] tr) (\<lambda>_ tr.
     andThen (git env repo [''switch'', ''--create'', head] tr) (\<lambda>_ tr.
     andThen (cherryPick env repo commitSha tr) (\<lambda>_ tr.
     andThen (git env repo [''push'', ''--set-upstream'', ''origin'', head] tr) (\<lambda>_ tr.
     andThen (request env (PostPulls owner repo base head title body) tr) (\<lambda>created tr.
     andThen (request env
                (PostRequestedReviewers owner repo (number created)
                   (if author \<noteq> merged_by \<and> merged_by \<noteq> [] then [author, merged_by] else [author])
                   (if teamReviews \<noteq> [] then Some [teamReviews] else None)) tr) (\<lambda>_ tr.
     andThen (if length labels > 0
              then andThen (request env (PutLabels owner repo (number created) labels) tr)
                     (\<lambda>_ tr. (Inr (), tr))
              else (Inr (), tr)) (\<lambda>_ tr.
     (Inr (number created),
      tr @ [Info (''PR #'' @ show_nat (number created) @ '' has been created.'')]))))))))"

definition newline :: char where
  "newline = CHR 0x0A"

definition getFailedBackportCommentBody ::
  "string \<Rightarrow> string \<Rightarrow> string \<Rightarrow> string \<Rightarrow> nat \<Rightarrow> string \<Rightarrow> string" where
  "getFailedBackportCommentBody base commitSha errorMessage head prNumber runUrl =
     (let worktreePath = ''.worktrees/backport-'' @ base
      in concat (map (\<lambda>line. line @ [newline])
       [''The backport to `'' @ base @ ''` failed at '' @ runUrl @ '':'',
        ''```'',
        errorMessage,
        ''```'',
        '''',
        ''To backport this PR manually, you can either:'',
        '''',
        ''<details>'',
        ''<summary>Via the sg tool</summary>'',
        '''',
        ''Use the `sg backport` command to backport your commit to the release branch.'',
        '''',
        ''```bash'',
        ''sg backport -r '' @ base @ '' -p '' @ show_nat prNumber,
        ''```'',
        ''</details>'',
        '''',
        ''<details>'',
        ''<summary>'',
        ''Via your terminal'',
        ''</summary>'',
        '''',
        ''To backport manually, run these commands in your terminal:'',
        '''',
        ''```bash'',
        ''# Fetch latest updates from GitHub'',
        ''git fetch'',
        ''# Create a new working tree'',
        ''git worktree add '' @ worktreePath @ '' '' @ base,
        ''# Navigate to the new working tree'',
        ''cd '' @ worktreePath,
        ''# Create a new branch'',
        ''git switch --create '' @ head,
        ''# Cherry-pick the merged commit of this pull request and resolve the conflicts'',
        ''git cherry-pick -x --mainline 1 '' @ commitSha,
        ''# Push it to GitHub'',
        ''git push --set-upstream origin '' @ head,
        ''# Go back to the original working tree'',
        ''cd ../..'',
        ''# Delete the working tree'',
        ''git worktree remove '' @ worktreePath,
        ''```'',
        '''',
        ''If you encouter conflict, first resolve the conflict and stage all files, then run the commands below:'',
        ''```bash'',
        ''git cherry-pick --continue'',
        ''# Push it to GitHub'',
        ''git push --set-upstream origin '' @ head,
        ''# Go back to the original working tree'',
        ''cd ../..'',
        ''# Delete the working tree'',
        ''git worktree remove '' @ worktreePath,
        ''```'',
        '''',
        ''- [ ] Follow above instructions to backport the commit.'',
        ''- [ ] Create a pull request where the `base` branch is `'' @ base @ ''` and the `compare`/`head` branch is `'' @ head @ ''`., [click here to create the pull request](https://github.com/sourcegraph/sourcegraph/compare/'' @ base @ ''...'' @ head @ ''?expand=1).'',
        ''</details>'',
        '''',
        ''Once the pull request has been created, please ensure the following:'',
        '''',
        ''- [ ] Make sure to tag `@sourcegraph/release` in the pull request description.'',
        '''',
        ''- [ ] kindly remove the `release-blocker` from this pull request.'']))"


section \<open>The orchestrator (src/src/backport.ts, lines 240-404)\<close>

text \<open>
  The arguments of \<open>backport\<close> other than the payload. The three template functions
  are pure functions of their properties, in the order the source lists them:
  \<open>getBody base body mergeCommitSha number\<close>, \<open>getHead base number\<close>,
  \<open>getTitle base number title\<close>. \<open>cloneUrlString url tok\<close> is the text of
  \<open>new URL(url)\<close> after its user name is set to \<open>x-access-token\<close> and its password
  to \<open>tok\<close>; URL parsing belongs to the platform and is taken as a parameter.
\<close>

record inputs =
  getBody :: "string \<Rightarrow> string \<Rightarrow> string \<Rightarrow> nat \<Rightarrow> string"
  getHead :: "string \<Rightarrow> nat \<Rightarrow> string"
  getTitle :: "string \<Rightarrow> nat \<Rightarrow> string \<Rightarrow> string"
  labelRegExp :: regexp
  runId :: nat
  serverUrl :: string
  teamReviewsInput :: string
  token :: string
  cloneUrlString :: "string \<Rightarrow> string \<Rightarrow> string"

text \<open>The constants computed at the top of each iteration of the loop.\<close>

definition targetBody :: "inputs \<Rightarrow> payload \<Rightarrow> string \<Rightarrow> string \<Rightarrow> string" where
  "targetBody cfg p mergeCommitSha base =
     getBody cfg base
       (case pr_body (pull_request p) of
          None \<Rightarrow> []
        | Some originalBody \<Rightarrow>
            if originalBody = [] then [] else stripTestPlanFromPRBody originalBody)
       mergeCommitSha (pr_number (pull_request p))"

definition targetHead :: "inputs \<Rightarrow> payload \<Rightarrow> string \<Rightarrow> string" where
  "targetHead cfg p base = getHead cfg base (pr_number (pull_request p))"

definition targetLabels :: "inputs \<Rightarrow> payload \<Rightarrow> string \<Rightarrow> string list" where
  "targetLabels cfg p base =
     filter (\<lambda>lbl. \<not> test (labelRegExp cfg) lbl) (pr_labels (pull_request p))
       @ [''backports'', ''backported-to-'' @ base]"

definition targetTitle :: "inputs \<Rightarrow> payload \<Rightarrow> string \<Rightarrow> string" where
  "targetTitle cfg p base =
     getTitle cfg base (pr_number (pull_request p)) (pr_title (pull_request p))"

definition targetMergedBy :: "payload \<Rightarrow> string" where
  "targetMergedBy p = (case merged_by_login (pull_request p) of None \<Rightarrow> [] | Some login \<Rightarrow> login)"

definition targetRunUrl :: "inputs \<Rightarrow> payload \<Rightarrow> string" where
  "targetRunUrl cfg p =
     serverUrl cfg @ ''/'' @ owner_login (repository p) @ ''/'' @ repo_name (repository p)
       @ ''/actions/runs/'' @ show_nat (runId cfg)"

definition groupName :: "inputs \<Rightarrow> payload \<Rightarrow> string \<Rightarrow> string" where
  "groupName cfg p base =
     ''Backporting to '' @ base @ '' on '' @ targetHead cfg p base @ ''.''"

text \<open>
  \<open>group\<close> of the actions toolkit: start the log group, await the callback, end the
  group whether the callback resolved or rejected, and hand its result on.
\<close>

definition group :: "string \<Rightarrow> (event list \<Rightarrow> 'a step) \<Rightarrow> event list \<Rightarrow> 'a step" where
  "group name fn tr = (case fn (tr @ [GroupStart name]) of (r, tr1) \<Rightarrow> (r, tr1 @ [GroupEnd]))"

definition failureComment :: "inputs \<Rightarrow> payload \<Rightarrow> string \<Rightarrow> string \<Rightarrow> error \<Rightarrow> call" where
  "failureComment cfg p mergeCommitSha base e =
     PostComments (owner_login (repository p)) (repo_name (repository p))
       (pr_number (pull_request p))
       (getFailedBackportCommentBody base mergeCommitSha (message e) (targetHead cfg p base)
          (pr_number (pull_request p)) (targetRunUrl cfg p))"

definition failureLabels :: "payload \<Rightarrow> string \<Rightarrow> call" where
  "failureLabels p base =
     PostLabels (owner_login (repository p)) (repo_name (repository p))
       (pr_number (pull_request p))
       [''backports'', ''release-blocker'', ''failed-backport-to-'' @ base]"

text \<open>The \<open>catch\<close> block of the callback (lines 365-399).\<close>

definition recover ::
  "environment \<Rightarrow> inputs \<Rightarrow> payload \<Rightarrow> string \<Rightarrow> string \<Rightarrow> error \<Rightarrow> event list \<Rightarrow> unit step" where
  "recover env cfg p mergeCommitSha base e tr =
     andThen (request env (failureComment cfg p mergeCommitSha base e) (tr @ [LogError e])) (\<lambda>_ tr.
     andThen (request env (failureLabels p base) tr) (\<lambda>_ tr.
     (Inr (), tr)))"

text \<open>The \<open>backportOnce\<close> call of the callback, with the arguments of lines 350-363.\<close>

definition attempt ::
  "environment \<Rightarrow> inputs \<Rightarrow> payload \<Rightarrow> string \<Rightarrow> string \<Rightarrow> event list \<Rightarrow> nat step" where
  "attempt env cfg p mergeCommitSha base tr =
     backportOnce env (user_login (pull_request p)) base (targetBody cfg p mergeCommitSha base)
       mergeCommitSha (targetHead cfg p base) (targetLabels cfg p base) (targetMergedBy p)
       (owner_login (repository p)) (repo_name (repository p)) (teamReviewsInput cfg)
       (targetTitle cfg p base) tr"

text \<open>One iteration of the loop; the result map is passed in and handed back.\<close>

definition backportTarget ::
  "environment \<Rightarrow> inputs \<Rightarrow> payload \<Rightarrow> string \<Rightarrow> string \<Rightarrow> (string \<rightharpoonup> nat) \<Rightarrow> event list
   \<Rightarrow> (string \<rightharpoonup> nat) step" where
  "backportTarget env cfg p mergeCommitSha base created tr =
     group (groupName cfg p base) (\<lambda>tr.
       case attempt env cfg p mergeCommitSha base tr of
         (Inr backportPullRequestNumber, tr1) \<Rightarrow>
           (Inr (created(base \<mapsto> backportPullRequestNumber)), tr1)
       | (Inl e, tr1) \<Rightarrow>
           andThen (recover env cfg p mergeCommitSha base e tr1) (\<lambda>_ tr2. (Inr created, tr2))) tr"

fun processTargets ::
  "environment \<Rightarrow> inputs \<Rightarrow> payload \<Rightarrow> string \<Rightarrow> string list \<Rightarrow> (string \<rightharpoonup> nat) \<Rightarrow> event list
   \<Rightarrow> (string \<rightharpoonup> nat) step" where
  "processTargets env cfg p mergeCommitSha [] created tr = (Inr created, tr)"
| "processTargets env cfg p mergeCommitSha (base # rest) created tr =
     andThen (backportTarget env cfg p mergeCommitSha base created tr)
       (\<lambda>created1 tr1. processTargets env cfg p mergeCommitSha rest created1 tr1)"

text \<open>
  Lines 309-326, between routing and the loop: the merge-method warning, the log line,
  the clone and the two \<open>git config\<close> commands.
\<close>

definition prepare ::
  "environment \<Rightarrow> inputs \<Rightarrow> payload \<Rightarrow> string \<Rightarrow> event list \<Rightarrow> unit step" where
  "prepare env cfg p mergeCommitSha tr =
     andThen (warnIfSquashIsNotTheOnlyAllowedMergeMethod env
                (owner_login (repository p)) (repo_name (repository p)) tr) (\<lambda>_ tr.
     andThen (exec env
                [''clone'', cloneUrlString cfg (clone_url (repository p)) (token cfg)]
                None
                (tr @ [Info (''Backporting '' @ mergeCommitSha @ '' from #''
                        @ show_nat (pr_number (pull_request p)) @ ''.'')])) (\<lambda>_ tr.
     andThen (exec env
                [''config'', ''--global'', ''user.email'',
                 ''github-actions[bot]@users.noreply.github.com'']
                None tr) (\<lambda>_ tr.
     andThen (exec env
                [''config'', ''--global'', ''user.name'', ''github-actions[bot]'']
                None tr) (\<lambda>_ tr.
     (Inr (), tr)))))"

definition backport ::
  "environment \<Rightarrow> inputs \<Rightarrow> payload \<Rightarrow> event list \<Rightarrow> (string \<rightharpoonup> nat) step" where
  "backport env cfg p tr =
     (case merge_commit_sha (pull_request p) of
        None \<Rightarrow> (Inl SecurityError, tr)
      | Some mergeCommitSha \<Rightarrow>
          if merged (pull_request p) \<noteq> Some True \<or> mergeCommitSha = []
          then (Inl SecurityError, tr)
          else
            (case getBaseBranches (labelRegExp cfg) p of
               Inl e \<Rightarrow> (Inl e, tr)
             | Inr baseBranches \<Rightarrow>
                 if length baseBranches = 0
                 then (Inr Map.empty, tr @ [Info ''No backports required.''])
                 else
                   andThen (prepare env cfg p mergeCommitSha tr) (\<lambda>_ tr.
                   processTargets env cfg p mergeCommitSha baseBranches Map.empty tr)))"

section \<open>Notions used to state the properties\<close>

text \<open>
  A body has a delimiter pair when somewhere in it a start delimiter is followed,
  after its last character, by an end delimiter.
\<close>

fun has_delimiter_pair :: "string \<Rightarrow> bool" where
  "has_delimiter_pair [] = False"
| "has_delimiter_pair (c # cs) =
     ((prefix startDelimiter (c # cs)
         \<and> sublist endDelimiter (drop (length startDelimiter) (c # cs)))
      \<or> has_delimiter_pair cs)"


definition lacksBase :: "regexp \<Rightarrow> string \<Rightarrow> bool" where
  "lacksBase rx lbl \<longleftrightarrow>
     (case regexp_exec rx lbl of
        None \<Rightarrow> False
      | Some r \<Rightarrow>
          (case groups r of
             None \<Rightarrow> False
           | Some gs \<Rightarrow> gs ''base'' = None \<or> gs ''base'' = Some []))"

text \<open>The labels the router tests: the new label of a "labeled" event, all of a "closed" one.\<close>

definition routedLabels :: "payload \<Rightarrow> string list" where
  "routedLabels p =
     (case event_label p of Some name \<Rightarrow> [name] | None \<Rightarrow> pr_labels (pull_request p))"

definition withLabels :: "payload \<Rightarrow> string list \<Rightarrow> payload" where
  "withLabels p lbls = p \<lparr> pull_request := (pull_request p) \<lparr> pr_labels := lbls \<rparr> \<rparr>"

text \<open>The names of the log groups a trace opens, in order: one per target started.\<close>

fun groupStarts :: "event list \<Rightarrow> string list" where
  "groupStarts [] = []"
| "groupStarts (GroupStart name # evs) = name # groupStarts evs"
| "groupStarts (ev # evs) = groupStarts evs"

subsection \<open>Concrete inputs\<close>

text \<open>
  Three patterns, each with the \<open>exec\<close> of its source text on labels of one line:
  \<open>base:(?<base>.*)\<close> captures what follows the first \<open>base:\<close>; \<open>backport\<close> has no
  named group; \<open>backport (?<target>.*)\<close> names its group \<open>target\<close>.
\<close>

definition rx_after_base :: regexp where
  "rx_after_base =
     \<lparr> source = ''base:(?<base>.*)'',
       regexp_exec = (\<lambda>s. case search ''base:'' s of
                             None \<Rightarrow> None
                           | Some i \<Rightarrow> Some \<lparr> groups = Some [''base'' \<mapsto> drop (i + 5) s] \<rparr>) \<rparr>"

definition rx_unnamed :: regexp where
  "rx_unnamed =
     \<lparr> source = ''backport'',
       regexp_exec = (\<lambda>s. case search ''backport'' s of
                             None \<Rightarrow> None
                           | Some i \<Rightarrow> Some \<lparr> groups = None \<rparr>) \<rparr>"

definition rx_other_group :: regexp where
  "rx_other_group =
     \<lparr> source = ''backport (?<target>.*)'',
       regexp_exec = (\<lambda>s. case search ''backport '' s of
                             None \<Rightarrow> None
                           | Some i \<Rightarrow> Some \<lparr> groups = Some [''target'' \<mapsto> drop (i + 9) s] \<rparr>) \<rparr>"

definition example_pr :: "string list \<Rightarrow> pull_request" where
  "example_pr lbls =
     \<lparr> pr_body = Some ''Fix<!--plan-->.'', pr_labels = lbls,
       merge_commit_sha = Some ''abc123'', merged = Some True,
       merged_by_login = Some ''merger'', pr_number = 42, pr_title = ''Fix'',
       user_login = ''author'' \<rparr>"

definition example_repo :: repository where
  "example_repo =
     \<lparr> repo_name = ''repo'', owner_login = ''org'',
       clone_url = ''https://github.com/org/repo.git'' \<rparr>"

definition closed_event :: "string list \<Rightarrow> payload" where
  "closed_event lbls =
     \<lparr> event_label = None, pull_request = example_pr lbls, repository = example_repo \<rparr>"

definition labeled_event :: "string \<Rightarrow> payload" where
  "labeled_event lbl =
     \<lparr> event_label = Some lbl, pull_request = example_pr [lbl], repository = example_repo \<rparr>"

definition unmerged_event :: payload where
  "unmerged_event =
     \<lparr> event_label = None,
       pull_request = (example_pr [''backport base:5.3'']) \<lparr> merged := Some False \<rparr>,
       repository = example_repo \<rparr>"

definition example_inputs :: "regexp \<Rightarrow> inputs" where
  "example_inputs rx =
     \<lparr> getBody = (\<lambda>base body mergeCommitSha n. body),
       getHead = (\<lambda>base n. ''backport-to-'' @ base),
       getTitle = (\<lambda>base n title. title),
       labelRegExp = rx, runId = 7, serverUrl = ''https://github.com'',
       teamReviewsInput = '''', token = ''t'',
       cloneUrlString = (\<lambda>url tok. url) \<rparr>"

definition ok_response :: response where
  "ok_response = \<lparr> number = 100, allow_merge_commit = False, allow_rebase_merge = False \<rparr>"

text \<open>An environment in which every command and every request succeeds.\<close>

definition env_ok :: environment where
  "env_ok tr c = Inr ok_response"

subsection \<open>What a trace shows about a target\<close>

text \<open>
  \<open>quiet tr tr'\<close>: the trace \<open>tr'\<close> continues \<open>tr\<close> without opening a log group.
\<close>

definition quiet :: "event list \<Rightarrow> event list \<Rightarrow> bool" where
  "quiet tr tr' \<longleftrightarrow> (\<exists>ext. tr' = tr @ ext \<and> groupStarts ext = [])"

text \<open>
  \<open>backported cfg p sha base n evs\<close>: among \<open>evs\<close> the pull request of the target
  \<open>base\<close> was created with number \<open>n\<close> and the target's labels were put on it.
  \<open>failureReported cfg p sha base evs\<close>: among \<open>evs\<close> the failure comment for \<open>base\<close>
  was posted on the source pull request and the three failure labels were added to it.
\<close>

definition backported ::
  "inputs \<Rightarrow> payload \<Rightarrow> string \<Rightarrow> string \<Rightarrow> nat \<Rightarrow> event list \<Rightarrow> bool" where
  "backported cfg p sha base n evs \<longleftrightarrow>
     (\<exists>d. number d = n
        \<and> Called (PostPulls (owner_login (repository p)) (repo_name (repository p)) base
                    (targetHead cfg p base) (targetTitle cfg p base) (targetBody cfg p sha base))
                 (Inr d) \<in> set evs)
     \<and> (\<exists>d. Called (PutLabels (owner_login (repository p)) (repo_name (repository p)) n
                       (targetLabels cfg p base))
                    (Inr d) \<in> set evs)"


text \<open>
  \<open>entersLoop env cfg p tr0 sha bases tr\<close>: started with trace \<open>tr0\<close>, the run passes
  validation, routes to the non-empty list \<open>bases\<close>, and its preparation succeeds,
  so that the loop is entered with trace \<open>tr\<close>.
\<close>

definition entersLoop ::
  "environment \<Rightarrow> inputs \<Rightarrow> payload \<Rightarrow> event list \<Rightarrow> string \<Rightarrow> string list \<Rightarrow> event list
   \<Rightarrow> bool" where
  "entersLoop env cfg p tr0 sha bases tr \<longleftrightarrow>
     merged (pull_request p) = Some True
     \<and> merge_commit_sha (pull_request p) = Some sha \<and> sha \<noteq> []
     \<and> getBaseBranches (labelRegExp cfg) p = Inr bases \<and> bases \<noteq> []
     \<and> prepare env cfg p sha tr0 = (Inr (), tr)"

subsection \<open>Concrete environments\<close>

text \<open>
  \<open>env_conflict_on head\<close>: the cherry-pick conflicts on the branch \<open>head\<close> (the command
  that precedes it created that branch) and everything else succeeds.
  \<open>env_comment_rejected\<close>: every cherry-pick conflicts and the comment call is
  rejected. \<open>env_labels_rejected\<close>: the first \<open>git switch\<close> of every target fails and
  the call that adds the failure labels is rejected.
\<close>

definition env_conflict_on :: "string \<Rightarrow> environment" where
  "env_conflict_on head tr c =
     (case c of
        Exec args cwd \<Rightarrow>
          if take 2 args = [''cherry-pick'', ''-x'']
             \<and> tr \<noteq> []
             \<and> last tr = Called (Exec [''switch'', ''--create'', head] cwd) (Inr ok_response)
          then Inl ''conflict'' else Inr ok_response
      | _ \<Rightarrow> Inr ok_response)"

definition env_comment_rejected :: environment where
  "env_comment_rejected tr c =
     (case c of
        Exec args cwd \<Rightarrow>
          if take 2 args = [''cherry-pick'', ''-x''] then Inl ''conflict'' else Inr ok_response
      | PostComments owner repo n body \<Rightarrow> Inl ''comment rejected''
      | _ \<Rightarrow> Inr ok_response)"

definition env_labels_rejected :: environment where
  "env_labels_rejected tr c =
     (case c of
        Exec args cwd \<Rightarrow>
          if take 1 args = [''switch''] then Inl ''unknown branch'' else Inr ok_response
      | PostLabels owner repo n labels \<Rightarrow> Inl ''labels rejected''
      | _ \<Rightarrow> Inr ok_response)"

text \<open>
  The runs used below: the pattern \<open>base:(?<base>.*)\<close> on a merged pull request that
  carries one, or two, backport labels.
\<close>

definition example_cfg :: inputs where
  "example_cfg = example_inputs rx_after_base"

definition one_target :: payload where
  "one_target = closed_event [''backport base:5.3'']"

definition two_targets :: payload where
  "two_targets = closed_event [''backport base:5.3'', ''backport base:5.4'']"

section \<open>Test-plan stripping: properties\<close>

lemma search_None_iff: "search needle xs = None \<longleftrightarrow> \<not> sublist needle xs"
  by (induction xs) (auto simp: sublist_Cons_right)

lemma search_Some_prefix:
  "search needle xs = Some i \<Longrightarrow> i \<le> length xs \<and> prefix needle (drop i xs)"
proof (induction xs arbitrary: i)
  case Nil
  then show ?case by (simp split: if_splits)
next
  case (Cons c cs)
  then show ?case by (auto split: if_splits)
qed

lemma search_first:
  assumes "needle \<noteq> []" and "\<not> sublist needle (pre @ butlast needle)"
  shows "search needle (pre @ needle @ post) = Some (length pre)"
  using assms
proof (induction pre)
  case Nil
  then show ?case by (cases needle) auto
next
  case (Cons p ps)
  have np: "\<not> prefix needle ((p # ps) @ butlast needle)"
    using Cons.prems(2) prefix_imp_sublist by blast
  have "\<not> prefix needle ((p # ps) @ needle @ post)"
  proof
    assume a: "prefix needle ((p # ps) @ needle @ post)"
    have "length needle \<le> length ((p # ps) @ butlast needle)" by simp
    moreover have "(p # ps) @ needle @ post = ((p # ps) @ butlast needle) @ (last needle # post)"
      using Cons.prems(1) by simp
    ultimately have "prefix needle ((p # ps) @ butlast needle)"
      using a by (metis prefix_length_prefix prefixI)
    with np show False by simp
  qed
  moreover have "\<not> sublist needle (ps @ butlast needle)"
    using Cons.prems(2) by (simp add: sublist_Cons_right)
  ultimately show ?case using Cons.IH Cons.prems(1) by simp
qed

lemma indexOf_zero: "indexOf body needle 0 = search needle body"
  by (cases "search needle body") (simp_all add: indexOf_def)

lemma indexOf_after:
  "indexOf (pre @ rest) needle (length pre)
     = map_option (\<lambda>i. length pre + i) (search needle rest)"
  by (simp add: indexOf_def)

lemma startDelimiter_first:
  assumes "\<not> sublist startDelimiter (pre @ butlast startDelimiter)"
  shows "indexOf (pre @ startDelimiter @ rest) startDelimiter 0 = Some (length pre)"
  using search_first [OF _ assms] by (simp add: indexOf_zero startDelimiter_def)

lemma indexOf_past_start:
  "indexOf (pre @ startDelimiter @ rest) endDelimiter (length pre + length startDelimiter)
     = map_option (\<lambda>i. length pre + length startDelimiter + i) (search endDelimiter rest)"
  using indexOf_after [of "pre @ startDelimiter" rest endDelimiter] by simp

lemma strip_no_start:
  "\<not> sublist startDelimiter body \<Longrightarrow> stripTestPlanFromPRBody body = body"
  by (simp add: stripTestPlanFromPRBody_def indexOf_zero search_None_iff [symmetric])

lemma strip_no_end:
  assumes "\<not> sublist startDelimiter (pre @ butlast startDelimiter)"
    and "\<not> sublist endDelimiter rest"
  shows "stripTestPlanFromPRBody (pre @ startDelimiter @ rest) = pre @ startDelimiter @ rest"
proof -
  have "search endDelimiter rest = None"
    using assms(2) by (simp add: search_None_iff)
  then show ?thesis
    by (simp add: stripTestPlanFromPRBody_def startDelimiter_first [OF assms(1)]
        indexOf_past_start)
qed

lemma strip_pair:
  assumes "\<not> sublist startDelimiter (pre @ butlast startDelimiter)"
    and "\<not> sublist endDelimiter (mid @ butlast endDelimiter)"
  shows "stripTestPlanFromPRBody (pre @ startDelimiter @ mid @ endDelimiter @ post) = pre @ post"
proof -
  have e: "search endDelimiter (mid @ endDelimiter @ post) = Some (length mid)"
    using search_first [OF _ assms(2)] by (simp add: endDelimiter_def)
  show ?thesis
    by (simp add: stripTestPlanFromPRBody_def startDelimiter_first [OF assms(1)]
        indexOf_past_start e slice_to_def slice_from_def)
qed

lemma strip_example:
  "stripTestPlanFromPRBody ''before<!--plan-->middle<!--/plan-->after''
     = ''beforemiddle<!--/plan-->after''"
  by (simp add: stripTestPlanFromPRBody_def indexOf_def startDelimiter_def endDelimiter_def
      slice_to_def slice_from_def)

lemma has_delimiter_pair_iff:
  "has_delimiter_pair body \<longleftrightarrow>
     (\<exists>pre mid post. body = pre @ startDelimiter @ mid @ endDelimiter @ post)"
proof
  show "has_delimiter_pair body \<Longrightarrow>
      \<exists>pre mid post. body = pre @ startDelimiter @ mid @ endDelimiter @ post"
  proof (induction body)
    case Nil
    then show ?case by simp
  next
    case (Cons c cs)
    show ?case
    proof (cases "has_delimiter_pair cs")
      case True
      then obtain pre mid post where "cs = pre @ startDelimiter @ mid @ endDelimiter @ post"
        using Cons.IH by blast
      then have "c # cs = (c # pre) @ startDelimiter @ mid @ endDelimiter @ post" by simp
      then show ?thesis by blast
    next
      case False
      with Cons.prems have pf: "prefix startDelimiter (c # cs)"
        and sl: "sublist endDelimiter (drop (length startDelimiter) (c # cs))"
        by auto
      from pf obtain r where r: "c # cs = startDelimiter @ r" by (auto simp: prefix_def)
      with sl have "sublist endDelimiter r" by simp
      then obtain mid post where "r = mid @ endDelimiter @ post" by (auto simp: sublist_def)
      with r have "c # cs = [] @ startDelimiter @ mid @ endDelimiter @ post" by simp
      then show ?thesis by blast
    qed
  qed
next
  assume "\<exists>pre mid post. body = pre @ startDelimiter @ mid @ endDelimiter @ post"
  then obtain pre mid post where b: "body = pre @ startDelimiter @ mid @ endDelimiter @ post"
    by blast
  show "has_delimiter_pair body"
    unfolding b
  proof (induction pre)
    case Nil
    obtain c cs where cs: "startDelimiter @ mid @ endDelimiter @ post = c # cs"
      by (cases "startDelimiter @ mid @ endDelimiter @ post") (simp_all add: startDelimiter_def)
    have "prefix startDelimiter (c # cs)" unfolding cs [symmetric] by simp
    moreover have "sublist endDelimiter (drop (length startDelimiter) (c # cs))"
      unfolding cs [symmetric] by simp
    ultimately show ?case using cs by simp
  next
    case (Cons x xs)
    then show ?case by simp
  qed
qed

lemma strip_changes_pair:
  assumes "stripTestPlanFromPRBody body \<noteq> body"
  shows "has_delimiter_pair body"
proof -
  from assms obtain s where s: "search startDelimiter body = Some s"
    by (auto simp: stripTestPlanFromPRBody_def indexOf_zero split: option.splits)
  then obtain r1 where r1: "body = take s body @ startDelimiter @ r1" and sl: "s \<le> length body"
    using search_Some_prefix [OF s] by (metis append_take_drop_id prefixE)
  have len: "length (take s body) = s" using sl by simp
  from assms s obtain e where
    e: "indexOf body endDelimiter (s + length startDelimiter) = Some e"
    by (auto simp: stripTestPlanFromPRBody_def indexOf_zero split: option.splits)
  have "indexOf body endDelimiter (s + length startDelimiter)
      = map_option (\<lambda>i. s + length startDelimiter + i) (search endDelimiter r1)"
    using indexOf_past_start [of "take s body" r1] r1 len by simp
  with e obtain i where i: "search endDelimiter r1 = Some i" by auto
  then obtain r2 where "r1 = take i r1 @ endDelimiter @ r2"
    using search_Some_prefix [OF i] by (metis append_take_drop_id prefixE)
  with r1 have "body = take s body @ startDelimiter @ take i r1 @ endDelimiter @ r2"
    by simp
  then show ?thesis unfolding has_delimiter_pair_iff by blast
qed

text \<open>
  Claim C3, amended. The strip operation removes everything from the first \<open><!--\<close>
  through the first \<open>-->\<close> that starts after it, inclusive: when the body is
  \<open>pre <!-- mid --> post\<close>, no \<open><!--\<close> starts inside \<open>pre\<close> and no \<open>-->\<close> starts
  inside \<open>mid\<close>, the result is \<open>pre post\<close>. A body without \<open><!--\<close> is returned
  unchanged, and so is a body whose first \<open><!--\<close> is followed by no \<open>-->\<close>. On
  \<open>before<!--plan-->middle<!--/plan-->after\<close> the result is
  \<open>beforemiddle<!--/plan-->after\<close>: only the first comment goes.
\<close>

theorem strip_first_comment:
  "(\<not> sublist startDelimiter body \<longrightarrow> stripTestPlanFromPRBody body = body)
   \<and> (body = pre @ startDelimiter @ rest
        \<and> \<not> sublist startDelimiter (pre @ butlast startDelimiter)
        \<and> \<not> sublist endDelimiter rest
      \<longrightarrow> stripTestPlanFromPRBody body = body)
   \<and> (body = pre @ startDelimiter @ mid @ endDelimiter @ post
        \<and> \<not> sublist startDelimiter (pre @ butlast startDelimiter)
        \<and> \<not> sublist endDelimiter (mid @ butlast endDelimiter)
      \<longrightarrow> stripTestPlanFromPRBody body = pre @ post)
   \<and> stripTestPlanFromPRBody ''before<!--plan-->middle<!--/plan-->after''
        = ''beforemiddle<!--/plan-->after''"
  using strip_no_start [of body] strip_no_end [of pre rest] strip_pair [of pre mid post]
    strip_example
  by simp

theorem strip_first_comment_witness:
  "stripTestPlanFromPRBody ''no plan'' = ''no plan''
   \<and> stripTestPlanFromPRBody ''a<!--x'' = ''a<!--x''
   \<and> stripTestPlanFromPRBody ''a<!--x-->b'' = ''ab''"
  using strip_first_comment [of "''no plan''"]
    strip_first_comment [of "''a<!--x''" "''a''" "''x''"]
    strip_first_comment [of "''a<!--x-->b''" "''a''" _ "''x''" "''b''"]
  by (simp add: startDelimiter_def endDelimiter_def sublist_Cons_right)

text \<open>
  The example of claim C3 as the specification gives it: the result is not
  \<open>beforeafter\<close>.
\<close>

theorem strip_example_not_beforeafter:
  "stripTestPlanFromPRBody ''before<!--plan-->middle<!--/plan-->after'' \<noteq> ''beforeafter''"
  by (simp add: stripTestPlanFromPRBody_def indexOf_def startDelimiter_def endDelimiter_def
      slice_to_def slice_from_def)

text \<open>
  Claim C9. When the once-stripped body contains no further delimiter pair, stripping
  it again changes nothing.
\<close>

theorem strip_twice:
  "\<not> has_delimiter_pair (stripTestPlanFromPRBody body)
   \<Longrightarrow> stripTestPlanFromPRBody (stripTestPlanFromPRBody body) = stripTestPlanFromPRBody body"
  using strip_changes_pair [of "stripTestPlanFromPRBody body"] by blast

theorem strip_twice_witness:
  "stripTestPlanFromPRBody ''a<!--x-->b'' = ''ab''
   \<and> \<not> has_delimiter_pair ''ab''
   \<and> stripTestPlanFromPRBody (stripTestPlanFromPRBody ''a<!--x-->b'') = ''ab''"
proof -
  have once: "stripTestPlanFromPRBody ''a<!--x-->b'' = ''ab''"
    by (simp add: stripTestPlanFromPRBody_def indexOf_def startDelimiter_def endDelimiter_def
        slice_to_def slice_from_def)
  have none: "\<not> has_delimiter_pair ''ab''"
    by (simp add: startDelimiter_def)
  from strip_twice [of "''a<!--x-->b''"] once none show ?thesis by simp
qed

section \<open>Validation and label routing: properties\<close>

text \<open>
  Claim C1. When the merged flag is not \<open>true\<close>, or the merge commit identifier is
  absent or empty, \<open>backport\<close> throws the security error, the trace is the one it
  started with (no request, no command, not even a log line was issued), and no result
  map is returned.
\<close>

theorem unmerged_is_refused:
  "merged (pull_request p) \<noteq> Some True
     \<or> merge_commit_sha (pull_request p) = None
     \<or> merge_commit_sha (pull_request p) = Some []
   \<Longrightarrow> backport env cfg p tr = (Inl SecurityError, tr)"
  by (auto simp: backport_def split: option.splits)

theorem unmerged_is_refused_witness:
  "merged (pull_request unmerged_event) = Some False
   \<and> backport env_ok (example_inputs rx_after_base) unmerged_event [] = (Inl SecurityError, [])"
  using unmerged_is_refused [of unmerged_event env_ok "example_inputs rx_after_base" "[]"]
  by (simp add: unmerged_event_def example_pr_def)


lemma mapE_append:
  "mapE f (xs @ ys) =
     (case mapE f xs of
        Inl e \<Rightarrow> Inl e
      | Inr as \<Rightarrow> (case mapE f ys of Inl e \<Rightarrow> Inl e | Inr bs \<Rightarrow> Inr (as @ bs)))"
  by (induction xs) (simp_all split: sum.splits)

lemma mapE_raises:
  "x \<in> set xs \<Longrightarrow> f x = Inl e \<Longrightarrow> \<exists>y \<in> set xs. \<exists>e'. f y = Inl e' \<and> mapE f xs = Inl e'"
  by (induction xs) (auto split: sum.splits)

lemma compact_append: "compact (xs @ ys) = compact xs @ compact ys"
  by (induction xs rule: compact.induct) simp_all



lemma getBaseBranchFromLabel_raises:
  "lacksBase rx lbl \<Longrightarrow> getBaseBranchFromLabel lbl rx = Inl (MissingBaseGroupError (source rx) lbl)"
  by (auto simp: lacksBase_def getBaseBranchFromLabel_def split: option.splits)

lemma getBaseBranchFromLabel_Inl:
  "getBaseBranchFromLabel lbl rx = Inl e \<Longrightarrow> e = MissingBaseGroupError (source rx) lbl"
  by (auto simp: getBaseBranchFromLabel_def split: option.splits if_splits)


lemma router_raises:
  assumes "lacksBase rx lbl" and "lbl \<in> set (routedLabels p)"
  shows "\<exists>l \<in> set (routedLabels p).
           getBaseBranches rx p = Inl (MissingBaseGroupError (source rx) l)"
proof (cases "event_label p")
  case (Some name)
  with assms show ?thesis
    by (simp add: routedLabels_def getBaseBranches_def getBaseBranchFromLabel_raises)
next
  case None
  let ?f = "\<lambda>l. getBaseBranchFromLabel l rx"
  from None assms(2) have "lbl \<in> set (pr_labels (pull_request p))"
    by (simp add: routedLabels_def)
  from mapE_raises [where f = ?f, OF this getBaseBranchFromLabel_raises [OF assms(1)]]
  obtain y e where y: "y \<in> set (pr_labels (pull_request p))"
    and e: "?f y = Inl e" and m: "mapE ?f (pr_labels (pull_request p)) = Inl e"
    by blast
  from e getBaseBranchFromLabel_Inl have "e = MissingBaseGroupError (source rx) y" by blast
  with m e y None show ?thesis
    by (auto simp: routedLabels_def getBaseBranches_def)
qed

lemma router_error_is_fatal:
  assumes "getBaseBranches (labelRegExp cfg) p = Inl e"
    and "merged (pull_request p) = Some True"
    and "merge_commit_sha (pull_request p) = Some sha" and "sha \<noteq> []"
  shows "backport env cfg p tr = (Inl e, tr)"
  using assms by (simp add: backport_def)

lemma router_skips_label:
  assumes "event_label p = None" and "getBaseBranchFromLabel lbl rx = Inr None"
  shows "getBaseBranches rx (withLabels p (before @ lbl # after))
           = getBaseBranches rx (withLabels p (before @ after))"
  using assms
  by (simp add: getBaseBranches_def withLabels_def mapE_append compact_append
      split: sum.splits)

text \<open>
  Claim C4, amended. If the pattern matches the label and the match has named groups
  among which \<open>base\<close> is missing, \<open>getBaseBranchFromLabel\<close> throws the configuration
  error, and a merged pull request on which the router tests that label fails as a
  whole: \<open>backport\<close> throws a configuration error of the same pattern and issues nothing.
  A label that the pattern does not match at all produces no entry and no error, and so
  does a label matched by a pattern that has no named group at all.
\<close>

theorem missing_base_group:
  "(regexp_exec rx lbl = Some r \<and> groups r = Some gs \<and> gs ''base'' = None
      \<longrightarrow> getBaseBranchFromLabel lbl rx = Inl (MissingBaseGroupError (source rx) lbl)
          \<and> (labelRegExp cfg = rx \<and> lbl \<in> set (routedLabels p)
               \<and> merged (pull_request p) = Some True
               \<and> merge_commit_sha (pull_request p) = Some sha \<and> sha \<noteq> []
             \<longrightarrow> (\<exists>l \<in> set (routedLabels p).
                    backport env cfg p tr = (Inl (MissingBaseGroupError (source rx) l), tr))))
   \<and> (regexp_exec rx lbl = None \<or> (regexp_exec rx lbl = Some r \<and> groups r = None)
      \<longrightarrow> getBaseBranchFromLabel lbl rx = Inr None
          \<and> (event_label p = None
             \<longrightarrow> getBaseBranches rx (withLabels p (before @ lbl # after))
                   = getBaseBranches rx (withLabels p (before @ after))))"
proof (intro conjI impI)
  assume a: "regexp_exec rx lbl = Some r \<and> groups r = Some gs \<and> gs ''base'' = None"
  then have lb: "lacksBase rx lbl" by (simp add: lacksBase_def)
  then show "getBaseBranchFromLabel lbl rx = Inl (MissingBaseGroupError (source rx) lbl)"
    by (rule getBaseBranchFromLabel_raises)
  assume b: "labelRegExp cfg = rx \<and> lbl \<in> set (routedLabels p)
               \<and> merged (pull_request p) = Some True
               \<and> merge_commit_sha (pull_request p) = Some sha \<and> sha \<noteq> []"
  with router_raises [OF lb] obtain l where l: "l \<in> set (routedLabels p)"
    and e: "getBaseBranches rx p = Inl (MissingBaseGroupError (source rx) l)" by blast
  from b e have "backport env cfg p tr = (Inl (MissingBaseGroupError (source rx) l), tr)"
    using router_error_is_fatal [of cfg p _ sha env tr] by simp
  with l show "\<exists>l \<in> set (routedLabels p).
      backport env cfg p tr = (Inl (MissingBaseGroupError (source rx) l), tr)" by blast
next
  assume a: "regexp_exec rx lbl = None \<or> (regexp_exec rx lbl = Some r \<and> groups r = None)"
  then show n: "getBaseBranchFromLabel lbl rx = Inr None"
    by (auto simp: getBaseBranchFromLabel_def)
  assume "event_label p = None"
  then show "getBaseBranches rx (withLabels p (before @ lbl # after))
      = getBaseBranches rx (withLabels p (before @ after))"
    using n by (rule router_skips_label)
qed

theorem missing_base_group_witness:
  "getBaseBranchFromLabel ''backport 5.3'' rx_other_group
     = Inl (MissingBaseGroupError ''backport (?<target>.*)'' ''backport 5.3'')
   \<and> backport env_ok (example_inputs rx_other_group) (closed_event [''backport 5.3'']) []
     = (Inl (MissingBaseGroupError ''backport (?<target>.*)'' ''backport 5.3''), [])
   \<and> backport env_ok (example_inputs rx_other_group) (labeled_event ''backport 5.3'') []
     = (Inl (MissingBaseGroupError ''backport (?<target>.*)'' ''backport 5.3''), [])
   \<and> getBaseBranchFromLabel ''team/x'' rx_after_base = Inr None
   \<and> getBaseBranches rx_after_base (closed_event [''backport base:5.3'', ''team/x''])
     = getBaseBranches rx_after_base (closed_event [''backport base:5.3''])"
  using
    missing_base_group [of rx_other_group "''backport 5.3''"
      "\<lparr> groups = Some [''target'' \<mapsto> ''5.3''] \<rparr>" "[''target'' \<mapsto> ''5.3'']"
      "example_inputs rx_other_group" "closed_event [''backport 5.3'']" "''abc123''" env_ok "[]"]
    missing_base_group [of rx_other_group "''backport 5.3''"
      "\<lparr> groups = Some [''target'' \<mapsto> ''5.3''] \<rparr>" "[''target'' \<mapsto> ''5.3'']"
      "example_inputs rx_other_group" "labeled_event ''backport 5.3''" "''abc123''" env_ok "[]"]
    missing_base_group [of rx_after_base "''team/x''" _ _ _
      "closed_event [''backport base:5.3'']" _ _ _ "[''backport base:5.3'']" "[]"]
  by (simp add: rx_other_group_def rx_after_base_def example_inputs_def closed_event_def
      labeled_event_def example_pr_def routedLabels_def withLabels_def)

text \<open>
  The claim as the specification states it fails for a pattern without any named
  group: \<open>backport\<close> matches the label \<open>backport\<close>, the match has no \<open>base\<close> group, and
  the router returns the empty list without an error.
\<close>

theorem unnamed_pattern_is_no_error:
  "regexp_exec rx_unnamed ''backport'' = Some \<lparr> groups = None \<rparr>
   \<and> getBaseBranchFromLabel ''backport'' rx_unnamed = Inr None
   \<and> getBaseBranches rx_unnamed (closed_event [''backport'']) = Inr []"
  by (simp add: rx_unnamed_def getBaseBranches_def getBaseBranchFromLabel_def
      closed_event_def example_pr_def)



section \<open>Steps, traces and the loop: auxiliary facts\<close>

lemma andThen_Inl [simp]: "andThen (Inl e, tr) k = (Inl e, tr)"
  by (simp add: andThen_def)

lemma andThen_Inr [simp]: "andThen (Inr x, tr) k = k x tr"
  by (simp add: andThen_def)



lemma perform_eq_Inl:
  "perform env c tr = (Inl e, tr') \<longleftrightarrow>
     (\<exists>msg. env tr c = Inl msg \<and> e = ExternalError msg \<and> tr' = tr @ [Called c (Inl msg)])"
  by (auto simp: perform_def split: sum.splits)

lemma perform_ok: "env tr c = Inr d \<Longrightarrow> perform env c tr = (Inr d, tr @ [Called c (Inr d)])"
  by (simp add: perform_def)

lemma perform_fail:
  "env tr c = Inl msg \<Longrightarrow> perform env c tr = (Inl (ExternalError msg), tr @ [Called c (Inl msg)])"
  by (simp add: perform_def)

lemma groupStarts_append: "groupStarts (xs @ ys) = groupStarts xs @ groupStarts ys"
  by (induction xs rule: groupStarts.induct) simp_all




lemma quiet_groupStarts: "quiet tr tr' \<Longrightarrow> groupStarts tr' = groupStarts tr"
  by (auto simp: quiet_def groupStarts_append)




















section \<open>The orchestrator: properties\<close>


lemmas run_defs =
  backport_def prepare_def andThen_def perform_def exec_def request_def git_def cherryPick_def
  backportOnce_def attempt_def backportTarget_def group_def recover_def
  warnIfSquashIsNotTheOnlyAllowedMergeMethod_def getBaseBranches_def
  getBaseBranchFromLabel_def failureComment_def failureLabels_def
  targetLabels_def targetHead_def targetBody_def targetTitle_def targetMergedBy_def
  groupName_def test_def

lemmas example_defs =
  example_inputs_def closed_event_def example_pr_def example_repo_def rx_after_base_def
  ok_response_def example_cfg_def one_target_def two_targets_def





text \<open>
  Claim C8. When the two \<open>git switch\<close> commands of a target succeed and its
  cherry-pick fails, \<open>backportOnce\<close> runs \<open>git cherry-pick --abort\<close> in the working copy
  as its next command, and only then returns the failure: the error of the cherry-pick
  when the abort succeeded, the error of the abort otherwise. Nothing else is issued
  for the target.
\<close>

theorem cherry_pick_failure_aborts:
  assumes "env tr (Exec [''switch'', base] (Some repo)) = Inr d1"
    and "env (tr @ [Called (Exec [''switch'', base] (Some repo)) (Inr d1)])
           (Exec [''switch'', ''--create'', head] (Some repo)) = Inr d2"
    and "env (tr @ [Called (Exec [''switch'', base] (Some repo)) (Inr d1),
                    Called (Exec [''switch'', ''--create'', head] (Some repo)) (Inr d2)])
           (Exec [''cherry-pick'', ''-x'', commitSha] (Some repo)) = Inl msg"
    and "env (tr @ [Called (Exec [''switch'', base] (Some repo)) (Inr d1),
                    Called (Exec [''switch'', ''--create'', head] (Some repo)) (Inr d2),
                    Called (Exec [''cherry-pick'', ''-x'', commitSha] (Some repo)) (Inl msg)])
           (Exec [''cherry-pick'', ''--abort''] (Some repo)) = aborted"
  shows "backportOnce env author base body commitSha head labels merged_by owner repo
           teamReviews title tr
         = (Inl (case aborted of Inl msg2 \<Rightarrow> ExternalError msg2 | Inr d \<Rightarrow> ExternalError msg),
            tr @ [Called (Exec [''switch'', base] (Some repo)) (Inr d1),
                  Called (Exec [''switch'', ''--create'', head] (Some repo)) (Inr d2),
                  Called (Exec [''cherry-pick'', ''-x'', commitSha] (Some repo)) (Inl msg),
                  Called (Exec [''cherry-pick'', ''--abort''] (Some repo)) aborted])"
  using assms
  by (cases aborted)
     (simp_all add: backportOnce_def git_def exec_def cherryPick_def perform_def)

theorem cherry_pick_failure_aborts_witness:
  "backportOnce (env_conflict_on ''backport-to-5.3'') ''author'' ''5.3'' ''Fix'' ''abc123''
     ''backport-to-5.3'' [''backports''] ''merger'' ''org'' ''repo'' [] ''Fix'' []
   = (Inl (ExternalError ''conflict''),
      [Called (Exec [''switch'', ''5.3''] (Some ''repo'')) (Inr ok_response),
       Called (Exec [''switch'', ''--create'', ''backport-to-5.3''] (Some ''repo'')) (Inr ok_response),
       Called (Exec [''cherry-pick'', ''-x'', ''abc123''] (Some ''repo'')) (Inl ''conflict''),
       Called (Exec [''cherry-pick'', ''--abort''] (Some ''repo'')) (Inr ok_response)])"
  using cherry_pick_failure_aborts [of "env_conflict_on ''backport-to-5.3''" "[]" "''5.3''"
      "''repo''" ok_response "''backport-to-5.3''" ok_response "''abc123''" "''conflict''"
      "Inr ok_response" "''author''" "''Fix''" "[''backports'']" "''merger''" "''org''" "[]" "''Fix''"]
  by (simp add: env_conflict_on_def)

lemma andThen_assoc:
  "andThen (andThen r k1) k2 = andThen r (\<lambda>x tr. andThen (k1 x tr) k2)"
  by (cases r; cases "fst r") (auto simp: andThen_def)

lemma processTargets_append:
  "processTargets env cfg p sha (xs @ ys) m tr
     = andThen (processTargets env cfg p sha xs m tr)
         (\<lambda>m1 tr1. processTargets env cfg p sha ys m1 tr1)"
  by (induction xs arbitrary: m tr) (auto simp: andThen_def split: prod.splits sum.splits)

lemma backport_enters_loop:
  assumes "entersLoop env cfg p tr0 sha bases tr"
  shows "backport env cfg p tr0 = processTargets env cfg p sha bases Map.empty tr"
  using assms by (simp add: entersLoop_def backport_def)

lemma backport_at_target:
  assumes "entersLoop env cfg p tr0 sha (earlier @ b # rest) tr"
    and "processTargets env cfg p sha earlier Map.empty tr = (Inr created, tr1)"
  shows "backport env cfg p tr0
           = andThen (backportTarget env cfg p sha b created tr1)
               (\<lambda>created1 tr2. processTargets env cfg p sha rest created1 tr2)"
  using backport_enters_loop [OF assms(1)] assms(2)
  by (simp add: processTargets_append)


lemma backportTarget_comment_fails:
  assumes "attempt env cfg p sha b (tr @ [GroupStart (groupName cfg p b)]) = (Inl e, tr1)"
    and "env (tr1 @ [LogError e]) (failureComment cfg p sha b e) = Inl msg"
  shows "backportTarget env cfg p sha b created tr
           = (Inl (ExternalError msg),
              tr1 @ [LogError e, Called (failureComment cfg p sha b e) (Inl msg), GroupEnd])"
  using assms
  by (simp add: backportTarget_def group_def recover_def request_def perform_def)

lemma backportTarget_labels_fail:
  assumes "attempt env cfg p sha b (tr @ [GroupStart (groupName cfg p b)]) = (Inl e, tr1)"
    and "env (tr1 @ [LogError e]) (failureComment cfg p sha b e) = Inr d"
    and "env (tr1 @ [LogError e, Called (failureComment cfg p sha b e) (Inr d)])
           (failureLabels p b) = Inl msg"
  shows "backportTarget env cfg p sha b created tr
           = (Inl (ExternalError msg),
              tr1 @ [LogError e, Called (failureComment cfg p sha b e) (Inr d),
                     Called (failureLabels p b) (Inl msg), GroupEnd])"
  using assms
  by (simp add: backportTarget_def group_def recover_def request_def perform_def)

text \<open>
  Claim C2, amended. When the workflow of a target has failed and the call that posts
  the failure comment is rejected, or that call succeeds and the call that adds the
  failure labels is rejected, the rejection is not caught: the log group is closed,
  the loop ends, the remaining targets are not processed, and \<open>backport\<close> throws
  that error to its caller instead of returning a result map. The rejected call is
  issued once.
\<close>

theorem recovery_failure_escalates:
  assumes "entersLoop env cfg p tr0 sha (earlier @ b # rest) tr"
    and "processTargets env cfg p sha earlier Map.empty tr = (Inr created, tr1)"
    and "attempt env cfg p sha b (tr1 @ [GroupStart (groupName cfg p b)]) = (Inl e, tr2)"
  shows "(env (tr2 @ [LogError e]) (failureComment cfg p sha b e) = Inl msg
          \<longrightarrow> backport env cfg p tr0
               = (Inl (ExternalError msg),
                  tr2 @ [LogError e, Called (failureComment cfg p sha b e) (Inl msg), GroupEnd]))
       \<and> (env (tr2 @ [LogError e]) (failureComment cfg p sha b e) = Inr d
            \<and> env (tr2 @ [LogError e, Called (failureComment cfg p sha b e) (Inr d)])
                  (failureLabels p b) = Inl msg
          \<longrightarrow> backport env cfg p tr0
               = (Inl (ExternalError msg),
                  tr2 @ [LogError e, Called (failureComment cfg p sha b e) (Inr d),
                         Called (failureLabels p b) (Inl msg), GroupEnd]))"
  using backport_at_target [OF assms(1,2)]
    backportTarget_comment_fails [OF assms(3), of msg created]
    backportTarget_labels_fail [OF assms(3), of d msg created]
  by simp

theorem recovery_failure_escalates_witness:
  "backport env_comment_rejected example_cfg one_target []
     = (Inl (ExternalError ''comment rejected''),
        snd (attempt env_comment_rejected example_cfg one_target ''abc123'' ''5.3''
               (snd (prepare env_comment_rejected example_cfg one_target ''abc123'' [])
                  @ [GroupStart (groupName example_cfg one_target ''5.3'')]))
        @ [LogError (ExternalError ''conflict''),
           Called (failureComment example_cfg one_target ''abc123'' ''5.3''
                     (ExternalError ''conflict'')) (Inl ''comment rejected''),
           GroupEnd])
   \<and> backport env_labels_rejected example_cfg one_target []
     = (Inl (ExternalError ''labels rejected''),
        snd (attempt env_labels_rejected example_cfg one_target ''abc123'' ''5.3''
               (snd (prepare env_labels_rejected example_cfg one_target ''abc123'' [])
                  @ [GroupStart (groupName example_cfg one_target ''5.3'')]))
        @ [LogError (ExternalError ''unknown branch''),
           Called (failureComment example_cfg one_target ''abc123'' ''5.3''
                     (ExternalError ''unknown branch'')) (Inr ok_response),
           Called (failureLabels one_target ''5.3'') (Inl ''labels rejected''),
           GroupEnd])"
proof
  let ?env = env_comment_rejected
  let ?tr = "snd (prepare ?env example_cfg one_target ''abc123'' [])"
  let ?att = "attempt ?env example_cfg one_target ''abc123'' ''5.3''
                (?tr @ [GroupStart (groupName example_cfg one_target ''5.3'')])"
  have h1: "entersLoop ?env example_cfg one_target [] ''abc123'' ([] @ ''5.3'' # []) ?tr"
    by (simp add: entersLoop_def prod_eq_iff run_defs example_defs env_comment_rejected_def)
  have h2: "processTargets ?env example_cfg one_target ''abc123'' [] Map.empty ?tr
              = (Inr Map.empty, ?tr)"
    by simp
  have h3: "?att = (Inl (ExternalError ''conflict''), snd ?att)"
    by (simp add: prod_eq_iff run_defs example_defs env_comment_rejected_def)
  have h4: "?env (snd ?att @ [LogError (ExternalError ''conflict'')])
              (failureComment example_cfg one_target ''abc123'' ''5.3'' (ExternalError ''conflict''))
            = Inl ''comment rejected''"
    by (simp add: env_comment_rejected_def failureComment_def)
  from recovery_failure_escalates [OF h1 h2 h3, where msg = "''comment rejected''"] h4
  show "backport ?env example_cfg one_target []
     = (Inl (ExternalError ''comment rejected''),
        snd ?att @ [LogError (ExternalError ''conflict''),
           Called (failureComment example_cfg one_target ''abc123'' ''5.3''
                     (ExternalError ''conflict'')) (Inl ''comment rejected''),
           GroupEnd])"
    by simp
next
  let ?env = env_labels_rejected
  let ?tr = "snd (prepare ?env example_cfg one_target ''abc123'' [])"
  let ?att = "attempt ?env example_cfg one_target ''abc123'' ''5.3''
                (?tr @ [GroupStart (groupName example_cfg one_target ''5.3'')])"
  let ?e = "ExternalError ''unknown branch''"
  have h1: "entersLoop ?env example_cfg one_target [] ''abc123'' ([] @ ''5.3'' # []) ?tr"
    by (simp add: entersLoop_def prod_eq_iff run_defs example_defs env_labels_rejected_def)
  have h2: "processTargets ?env example_cfg one_target ''abc123'' [] Map.empty ?tr
              = (Inr Map.empty, ?tr)"
    by simp
  have h3: "?att = (Inl ?e, snd ?att)"
    by (simp add: prod_eq_iff run_defs example_defs env_labels_rejected_def)
  have h4: "?env (snd ?att @ [LogError ?e])
              (failureComment example_cfg one_target ''abc123'' ''5.3'' ?e) = Inr ok_response
            \<and> ?env (snd ?att @ [LogError ?e,
                  Called (failureComment example_cfg one_target ''abc123'' ''5.3'' ?e)
                    (Inr ok_response)])
              (failureLabels one_target ''5.3'') = Inl ''labels rejected''"
    by (simp add: env_labels_rejected_def failureComment_def failureLabels_def)
  from recovery_failure_escalates [OF h1 h2 h3, where msg = "''labels rejected''" and d = ok_response] h4
  show "backport ?env example_cfg one_target []
     = (Inl (ExternalError ''labels rejected''),
        snd ?att @ [LogError ?e,
           Called (failureComment example_cfg one_target ''abc123'' ''5.3'' ?e) (Inr ok_response),
           Called (failureLabels one_target ''5.3'') (Inl ''labels rejected''),
           GroupEnd])"
    by simp
qed

text \<open>
  Claim C2 as the specification states it fails: with one target whose cherry-pick
  conflicts and a comment call that is rejected, the caller receives the rejection.
\<close>

theorem recovery_failure_reaches_caller:
  "fst (backport env_comment_rejected example_cfg one_target [])
     = Inl (ExternalError ''comment rejected'')"
  by (simp add: run_defs example_defs env_comment_rejected_def)




end
